theory Spec2Isabelle
  imports Complex_Main "HOL-Library.Word"
begin

section \<open>The TIFF viewer components: data model\<close>

text \<open>
  The repository holds three React components, \<open>ImageView\<close>, \<open>ImageViewRef\<close> and
  \<open>ImageViewMag\<close>.  They share the code of \<open>loadTiff\<close>, \<open>renderCurrentPage\<close>,
  \<open>goToNextPage\<close> and \<open>goToPrevPage\<close> line by line; \<open>ImageView\<close> and
  \<open>ImageViewRef\<close> add the zoom level, \<open>ImageViewRef\<close> adds the rectangles and the
  canvas dimensions, \<open>ImageViewMag\<close> adds the magnifier.  The record \<open>viewer\<close> below
  carries the \<open>useState\<close> cells and the refs of all three; every operation writes only
  the cells its source writes.

  JavaScript numbers are modelled as \<open>int\<close> where the code handles pixel counts and
  page indices, and as \<open>real\<close> where it handles pointer coordinates and the zoom level.
\<close>

datatype component = ImageView | ImageViewRef | ImageViewMag

type_synonym buffer = "8 word list"

text \<open>
  An IFD as \<open>utif.d.ts\<close> declares it, restricted to the members the components read:
  \<open>width\<close>, \<open>height\<close> and the tags \<open>t256\<close> and \<open>t257\<close> reached through the index
  signature.  \<open>None\<close> is JavaScript's \<open>undefined\<close>.  A tag value is a number or an
  array of numbers.
\<close>

datatype tagval = Scalar int | Seq "int list"

record ifd =
  width :: "int option"
  height :: "int option"
  t256 :: "tagval option"
  t257 :: "tagval option"

text \<open>
  The canvas element behind \<open>canvasRef\<close>: its bitmap size and its RGBA bytes.
\<close>

record surface =
  cwidth :: int
  cheight :: int
  pixels :: "8 word list"

text \<open>
  The loupe canvas behind \<open>loupeCanvasRef\<close>: the source rectangle
  \<open>(sx, sy, sWidth, sHeight)\<close> of the last \<open>drawImage\<close> into it, \<open>None\<close> while nothing
  has been drawn.  The grid and the crosshair stroked over it do not depend on the
  pointer and are left out.
\<close>

record loupe =
  drawn :: "(real \<times> real \<times> real \<times> real) option"

record rect =
  rect_id :: nat
  topLeft :: "int \<times> int"
  bottomRight :: "int \<times> int"

record viewer =
  loading :: bool
  error :: "string option"
  renderTime :: "string option"
  currentPage :: int
  totalPages :: int
  tiffData :: "buffer option"
  tiffPages :: "ifd list"
  zoomLevel :: real
  canvasDimensions :: "int \<times> int"
  rectangleCoordinates :: "rect list"
  showMagnifier :: bool
  mousePos :: "real \<times> real"
  zoomActive :: bool
  canvas :: "surface option"
  loupeCanvas :: "loupe option"

text \<open>
  The values passed to \<open>useState\<close> on mount.  A canvas element starts as a
  transparent 300 by 150 bitmap; the loupe canvas is not mounted.
\<close>

definition initialRectangles :: "rect list" where
  "initialRectangles =
     [\<lparr>rect_id = 1, topLeft = (50, 50), bottomRight = (150, 150)\<rparr>,
      \<lparr>rect_id = 2, topLeft = (200, 50), bottomRight = (300, 150)\<rparr>,
      \<lparr>rect_id = 3, topLeft = (50, 200), bottomRight = (150, 300)\<rparr>,
      \<lparr>rect_id = 4, topLeft = (200, 200), bottomRight = (300, 300)\<rparr>]"

definition blank :: "int \<Rightarrow> int \<Rightarrow> surface" where
  "blank w h = \<lparr>cwidth = w, cheight = h, pixels = replicate (nat (w * h * 4)) 0\<rparr>"

definition initialViewer :: viewer where
  "initialViewer =
     \<lparr>loading = True, error = None, renderTime = None, currentPage = 0, totalPages = 0,
      tiffData = None, tiffPages = [], zoomLevel = 1, canvasDimensions = (0, 0),
      rectangleCoordinates = initialRectangles, showMagnifier = False, mousePos = (0, 0),
      zoomActive = False, canvas = Some (blank 300 150), loupeCanvas = None\<rparr>"

section \<open>Errors and their messages\<close>

text \<open>
  Every \<open>throw\<close> of the components, and the exceptions of the library and the host
  (\<open>HostError\<close>, carrying the message).  \<open>message\<close> is the \<open>err.message\<close> the
  \<open>catch\<close> blocks read.
\<close>

datatype thrown =
    FetchError
  | DecodeError
  | InvalidDimensions "int option" "int option"
  | InvalidPixelData
  | HostError string

definition digit_char :: "nat \<Rightarrow> char" where
  "digit_char n = ''0123456789'' ! n"

fun show_nat :: "nat \<Rightarrow> string" where
  "show_nat n = (if n < 10 then [digit_char n] else show_nat (n div 10) @ [digit_char (n mod 10)])"

declare show_nat.simps [simp del]

definition show_int :: "int \<Rightarrow> string" where
  "show_int i = (if i < 0 then CHR ''-'' # show_nat (nat (- i)) else show_nat (nat i))"

definition show_number :: "int option \<Rightarrow> string" where
  "show_number v = (case v of None \<Rightarrow> ''undefined'' | Some i \<Rightarrow> show_int i)"

fun message :: "thrown \<Rightarrow> string" where
  "message FetchError = ''Failed to fetch image''"
| "message DecodeError = ''No pages found in TIFF file''"
| "message (InvalidDimensions w h) =
     ''Invalid image dimensions: '' @ show_number w @ ''x'' @ show_number h"
| "message InvalidPixelData = ''Invalid RGBA data generated''"
| "message (HostError m) = m"

text \<open>\<open>err.message || fallback\<close>: the empty string is falsy.\<close>

definition message_or :: "thrown \<Rightarrow> string \<Rightarrow> string" where
  "message_or e fallback = (if message e = [] then fallback else message e)"

section \<open>Loading\<close>

text \<open>
  What the network and \<open>UTIF.decode\<close> answer: \<open>fetch\<close> rejects with a message or
  yields a response with its \<open>ok\<close> flag and the outcome of \<open>arrayBuffer()\<close>.
\<close>

record load_env =
  fetch :: "string + bool \<times> (string + buffer)"
  decode :: "buffer \<Rightarrow> string + ifd list"

definition loadTiff_try :: "load_env \<Rightarrow> viewer \<Rightarrow> thrown + viewer" where
  "loadTiff_try env s =
     (case fetch env of
        Inl m \<Rightarrow> Inl (HostError m)
      | Inr (ok, body) \<Rightarrow>
          if \<not> ok then Inl FetchError
          else (case body of
                  Inl m \<Rightarrow> Inl (HostError m)
                | Inr buf \<Rightarrow>
                    (case decode env buf of
                       Inl m \<Rightarrow> Inl (HostError m)
                     | Inr ifds \<Rightarrow>
                         if length ifds = 0 then Inl DecodeError
                         else Inr (s\<lparr>tiffData := Some buf, tiffPages := ifds,
                                     totalPages := int (length ifds), currentPage := 0\<rparr>))))"

definition loadTiff :: "load_env \<Rightarrow> viewer \<Rightarrow> viewer" where
  "loadTiff env s =
     (let s1 = s\<lparr>loading := True, error := None\<rparr>;
          s2 = (case loadTiff_try env s1 of
                  Inl e \<Rightarrow> s1\<lparr>error := Some (message_or e ''Error loading TIFF'')\<rparr>
                | Inr s' \<Rightarrow> s')
      in s2\<lparr>loading := False\<rparr>)"

section \<open>Rendering the current page\<close>

text \<open>
  What the library and the host answer during one render: \<open>UTIF.decodeImage\<close> fills
  the descriptor in place or throws; \<open>UTIF.toRGBA8\<close> returns the bytes (\<open>None\<close> for a
  falsy result) or throws; \<open>getContext\<close> tells whether the canvas hands out a 2D
  context; \<open>putImage\<close> is the message of the exception raised while the image data is
  built and put, if any; \<open>timeElapsed\<close> is the \<open>toFixed(2)\<close> text of the clock
  difference.
\<close>

record render_env =
  decodeImage :: "buffer \<Rightarrow> ifd \<Rightarrow> string + ifd"
  toRGBA8 :: "ifd \<Rightarrow> string + buffer option"
  getContext :: bool
  putImage :: "string option"
  timeElapsed :: string

text \<open>\<open>!v\<close> on a number or \<open>undefined\<close>.\<close>

definition falsy :: "int option \<Rightarrow> bool" where
  "falsy v = (v = None \<or> v = Some 0)"

text \<open>
  \<open>t ? (Array.isArray(t) ? t[0] : t) : 0\<close>.  An array is truthy even when empty, and
  then \<open>t[0]\<close> is \<open>undefined\<close>.
\<close>

fun tag_dimension :: "tagval option \<Rightarrow> int option" where
  "tag_dimension None = Some 0"
| "tag_dimension (Some (Seq xs)) = (case xs of [] \<Rightarrow> None | v # _ \<Rightarrow> Some v)"
| "tag_dimension (Some (Scalar n)) = (if n \<noteq> 0 then Some n else Some 0)"

definition resolve_width :: "ifd \<Rightarrow> int option" where
  "resolve_width pageIfd =
     (if falsy (width pageIfd) then tag_dimension (t256 pageIfd) else width pageIfd)"

definition resolve_height :: "ifd \<Rightarrow> int option" where
  "resolve_height pageIfd =
     (if falsy (height pageIfd) then tag_dimension (t257 pageIfd) else height pageIfd)"

definition invalid_dimensions :: "int option \<Rightarrow> int option \<Rightarrow> bool" where
  "invalid_dimensions w h = (falsy w \<or> falsy h \<or> the w \<le> 0 \<or> the h \<le> 0)"

text \<open>
  The \<open>if (canvas)\<close> block.  Assigning \<open>canvas.width\<close> and \<open>canvas.height\<close> resets
  the bitmap to transparent black at the new size.  \<open>ImageViewRef\<close> also stores the
  dimensions for its SVG overlay.
\<close>

definition draw :: "component \<Rightarrow> render_env \<Rightarrow> int \<Rightarrow> int \<Rightarrow> buffer option \<Rightarrow> viewer
    \<Rightarrow> thrown option \<times> viewer" where
  "draw c env w h rgbaData s =
     (case canvas s of
        None \<Rightarrow> (None, s)
      | Some cv \<Rightarrow>
          (let s1 = s\<lparr>canvas := Some (blank w h)\<rparr> in
           if \<not> getContext env then (None, s1)
           else if rgbaData = None \<or> int (length (the rgbaData)) < w * h * 4
             then (Some InvalidPixelData, s1)
           else (case putImage env of
                   Some m \<Rightarrow> (Some (HostError m), s1)
                 | None \<Rightarrow>
                     (let s2 = s1\<lparr>canvas := Some ((blank w h)\<lparr>pixels := the rgbaData\<rparr>)\<rparr> in
                      (None, if c = ImageViewRef then s2\<lparr>canvasDimensions := (w, h)\<rparr> else s2)))))"

text \<open>
  The \<open>try\<close> block: the exception that leaves it, if any, and the state at that
  moment.  \<open>decodeImage\<close> mutates the descriptor stored in \<open>tiffPages\<close>.
\<close>

definition render_try :: "component \<Rightarrow> render_env \<Rightarrow> buffer \<Rightarrow> viewer
    \<Rightarrow> thrown option \<times> viewer" where
  "render_try c env data s =
     (let pageIfd = tiffPages s ! nat (currentPage s) in
      case decodeImage env data pageIfd of
        Inl m \<Rightarrow> (Some (HostError m), s)
      | Inr pageIfd' \<Rightarrow>
          (let s1 = s\<lparr>tiffPages := (tiffPages s)[nat (currentPage s) := pageIfd']\<rparr>;
               w = resolve_width pageIfd';
               h = resolve_height pageIfd'
           in if invalid_dimensions w h then (Some (InvalidDimensions w h), s1)
              else (case toRGBA8 env pageIfd' of
                      Inl m \<Rightarrow> (Some (HostError m), s1)
                    | Inr rgbaData \<Rightarrow> draw c env (the w) (the h) rgbaData s1)))"

definition render_label :: "viewer \<Rightarrow> string \<Rightarrow> string" where
  "render_label s ms =
     ''Page '' @ show_int (currentPage s + 1) @ ''/'' @ show_nat (length (tiffPages s))
       @ '' | Render time: '' @ ms @ ''ms''"

definition renderCurrentPage :: "component \<Rightarrow> render_env \<Rightarrow> buffer \<Rightarrow> viewer \<Rightarrow> viewer" where
  "renderCurrentPage c env data s =
     (let s0 = s\<lparr>loading := True\<rparr>;
          s1 = (case render_try c env data s0 of
                  (Some e, s') \<Rightarrow> s'\<lparr>error := Some (message_or e ''Error rendering page'')\<rparr>
                | (None, s') \<Rightarrow> s')
      in s1\<lparr>renderTime := Some (render_label s (timeElapsed env)), loading := False\<rparr>)"

text \<open>The effect around it: nothing runs without data, pages and a valid index.\<close>

definition renderEffect :: "component \<Rightarrow> render_env \<Rightarrow> viewer \<Rightarrow> viewer" where
  "renderEffect c env s =
     (case tiffData s of
        None \<Rightarrow> s
      | Some data \<Rightarrow>
          if length (tiffPages s) = 0 \<or> currentPage s < 0
             \<or> currentPage s \<ge> int (length (tiffPages s))
          then s
          else renderCurrentPage c env data s)"

section \<open>Navigation and zoom\<close>

definition goToNextPage :: "viewer \<Rightarrow> viewer" where
  "goToNextPage s =
     (if currentPage s < totalPages s - 1 then s\<lparr>currentPage := currentPage s + 1\<rparr> else s)"

definition goToPrevPage :: "viewer \<Rightarrow> viewer" where
  "goToPrevPage s =
     (if currentPage s > 0 then s\<lparr>currentPage := currentPage s - 1\<rparr> else s)"

definition zoomIn :: "viewer \<Rightarrow> viewer" where
  "zoomIn s = s\<lparr>zoomLevel := min (zoomLevel s + 0.25) 5\<rparr>"

definition zoomOut :: "viewer \<Rightarrow> viewer" where
  "zoomOut s = s\<lparr>zoomLevel := max (zoomLevel s - 0.25) 0.25\<rparr>"

definition resetZoom :: "viewer \<Rightarrow> viewer" where
  "resetZoom s = s\<lparr>zoomLevel := 1\<rparr>"

section \<open>The magnifier\<close>

text \<open>
  What a mouse event and the layout tell \<open>handleMouseMove\<close>: the pointer's client
  coordinates, the canvas's bounding rectangle, the scroll offsets of the parent
  element (\<open>None\<close> when there is no parent) and whether the two canvases hand out a
  2D context.
\<close>

record pointer =
  clientX :: real
  clientY :: real
  bounding_left :: real
  bounding_top :: real
  bounding_width :: real
  container :: "(real \<times> real) option"
  mainCtx :: bool
  loupeCtx :: bool

definition sourceDim :: real where
  "sourceDim = 50"

text \<open>The first two source arguments of \<open>drawImage\<close>.\<close>

definition sourceX :: "real \<Rightarrow> surface \<Rightarrow> real" where
  "sourceX x mainCanvas = max 0 (min (x - sourceDim / 2) (real_of_int (cwidth mainCanvas) - sourceDim))"

definition sourceY :: "real \<Rightarrow> surface \<Rightarrow> real" where
  "sourceY y mainCanvas = max 0 (min (y - sourceDim / 2) (real_of_int (cheight mainCanvas) - sourceDim))"

definition sourceRegion :: "real \<Rightarrow> real \<Rightarrow> surface \<Rightarrow> real \<times> real \<times> real \<times> real" where
  "sourceRegion x y mainCanvas = (sourceX x mainCanvas, sourceY y mainCanvas, sourceDim, sourceDim)"

definition updateMagnifier :: "pointer \<Rightarrow> real \<Rightarrow> real \<Rightarrow> viewer \<Rightarrow> viewer" where
  "updateMagnifier e x y s =
     (case canvas s of
        None \<Rightarrow> s
      | Some mainCanvas \<Rightarrow>
          (case loupeCanvas s of
             None \<Rightarrow> s
           | Some loupeCanvas' \<Rightarrow>
               if \<not> mainCtx e \<or> \<not> loupeCtx e then s
               else s\<lparr>loupeCanvas := Some (loupeCanvas'\<lparr>drawn := Some (sourceRegion x y mainCanvas)\<rparr>)\<rparr>))"

definition handleMouseEnter :: "viewer \<Rightarrow> viewer" where
  "handleMouseEnter s = (if zoomActive s then s\<lparr>showMagnifier := True\<rparr> else s)"

definition handleMouseLeave :: "viewer \<Rightarrow> viewer" where
  "handleMouseLeave s = s\<lparr>showMagnifier := False\<rparr>"

definition magnifierWidth :: real where
  "magnifierWidth = 200"

definition magnifierHeight :: real where
  "magnifierHeight = 200"

text \<open>\<open>container ? container.scrollLeft : 0\<close>, and the same for \<open>scrollTop\<close>.\<close>

definition scrollLeft :: "pointer \<Rightarrow> real" where
  "scrollLeft e = (case container e of None \<Rightarrow> 0 | Some (l, t) \<Rightarrow> l)"

definition scrollTop :: "pointer \<Rightarrow> real" where
  "scrollTop e = (case container e of None \<Rightarrow> 0 | Some (l, t) \<Rightarrow> t)"

text \<open>The loupe's position, from the pointer relative to the canvas.\<close>

definition magnifierPos :: "pointer \<Rightarrow> real \<times> real" where
  "magnifierPos e =
     (let x = clientX e - bounding_left e;
          y = clientY e - bounding_top e;
          magnifierX = x - magnifierWidth / 2;
          magnifierY = y - magnifierHeight - 20;
          magnifierX1 = (if magnifierX < scrollLeft e then scrollLeft e else magnifierX);
          magnifierX2 = (if magnifierX1 + magnifierWidth > bounding_width e + scrollLeft e
                         then bounding_width e + scrollLeft e - magnifierWidth
                         else magnifierX1);
          magnifierY1 = (if magnifierY < scrollTop e then y + 20 else magnifierY)
      in (magnifierX2, magnifierY1))"

definition handleMouseMove :: "pointer \<Rightarrow> viewer \<Rightarrow> viewer" where
  "handleMouseMove e s =
     (if canvas s = None \<or> loupeCanvas s = None \<or> \<not> zoomActive s then s
      else updateMagnifier e (clientX e - bounding_left e) (clientY e - bounding_top e)
             (s\<lparr>mousePos := magnifierPos e\<rparr>))"

definition toggleZoom :: "viewer \<Rightarrow> viewer" where
  "toggleZoom s =
     (let newState = \<not> zoomActive s;
          s1 = (if \<not> newState then s\<lparr>showMagnifier := False\<rparr> else s)
      in s1\<lparr>zoomActive := newState\<rparr>)"

text \<open>
  The loupe is in the page exactly while \<open>showMagnifier && zoomActive\<close> holds: after
  each update React mounts a fresh loupe canvas or unmounts it, and
  \<open>loupeCanvasRef.current\<close> follows.
\<close>

definition loupeVisible :: "viewer \<Rightarrow> bool" where
  "loupeVisible s = (showMagnifier s \<and> zoomActive s)"

definition commit :: "viewer \<Rightarrow> viewer" where
  "commit s =
     (if loupeVisible s
      then (case loupeCanvas s of None \<Rightarrow> s\<lparr>loupeCanvas := Some \<lparr>drawn = None\<rparr>\<rparr> | Some l \<Rightarrow> s)
      else s\<lparr>loupeCanvas := None\<rparr>)"

section \<open>Events\<close>

text \<open>
  One event is one handler or effect run to its end, followed by React's commit.
  \<open>renderCurrentPage\<close> contains no \<open>await\<close>, so it is one step; \<open>loadTiff\<close> is
  taken as one step too.
\<close>

datatype event =
    Load load_env
  | Render render_env
  | NextPage
  | PrevPage
  | ZoomIn
  | ZoomOut
  | ResetZoom
  | ToggleZoom
  | MouseEnter
  | MouseLeave
  | MouseMove pointer

fun handle :: "component \<Rightarrow> event \<Rightarrow> viewer \<Rightarrow> viewer" where
  "handle c (Load env) s = loadTiff env s"
| "handle c (Render env) s = renderEffect c env s"
| "handle c NextPage s = goToNextPage s"
| "handle c PrevPage s = goToPrevPage s"
| "handle c ZoomIn s = zoomIn s"
| "handle c ZoomOut s = zoomOut s"
| "handle c ResetZoom s = resetZoom s"
| "handle c ToggleZoom s = toggleZoom s"
| "handle c MouseEnter s = handleMouseEnter s"
| "handle c MouseLeave s = handleMouseLeave s"
| "handle c (MouseMove e) s = handleMouseMove e s"

definition step :: "component \<Rightarrow> viewer \<Rightarrow> event \<Rightarrow> viewer" where
  "step c s ev = commit (handle c ev s)"

definition run :: "component \<Rightarrow> event list \<Rightarrow> viewer \<Rightarrow> viewer" where
  "run c evs s = foldl (step c) s evs"

section \<open>Regions of interest\<close>

text \<open>The \<open>width\<close> and \<open>height\<close> attributes the SVG overlay gives each rectangle.\<close>

definition svg_width :: "rect \<Rightarrow> int" where
  "svg_width r = fst (bottomRight r) - fst (topLeft r)"

definition svg_height :: "rect \<Rightarrow> int" where
  "svg_height r = snd (bottomRight r) - snd (topLeft r)"

text \<open>Two rectangles, borders included, share a point.\<close>

definition overlap :: "rect \<Rightarrow> rect \<Rightarrow> bool" where
  "overlap a b =
     (fst (topLeft a) \<le> fst (bottomRight b) \<and> fst (topLeft b) \<le> fst (bottomRight a)
      \<and> snd (topLeft a) \<le> snd (bottomRight b) \<and> snd (topLeft b) \<le> snd (bottomRight a))"

section \<open>Predicates and sample inputs\<close>

definition zoom_in_range :: "viewer \<Rightarrow> bool" where
  "zoom_in_range s = (0.25 \<le> zoomLevel s \<and> zoomLevel s \<le> 5)"

text \<open>The zoom level is a whole number of quarters, so a double holds it exactly.\<close>

definition zoom_quarter :: "viewer \<Rightarrow> bool" where
  "zoom_quarter s = (\<exists>k::int. zoomLevel s = real_of_int k / 4)"

text \<open>A source rectangle lies inside the bitmap of a canvas.\<close>

definition region_within :: "real \<times> real \<times> real \<times> real \<Rightarrow> surface \<Rightarrow> bool" where
  "region_within r cv =
     (case r of (sx, sy, sw, sh) \<Rightarrow>
        0 \<le> sx \<and> sx + sw \<le> real_of_int (cwidth cv)
        \<and> 0 \<le> sy \<and> sy + sh \<le> real_of_int (cheight cv))"

text \<open>The magnifier is switched off, the loupe hidden and unmounted.\<close>

definition magnifier_off :: "viewer \<Rightarrow> bool" where
  "magnifier_off s = (\<not> zoomActive s \<and> \<not> showMagnifier s \<and> loupeCanvas s = None)"

fun is_load :: "event \<Rightarrow> bool" where
  "is_load (Load env) = True"
| "is_load ev = False"

text \<open>
  Sample pages: a 2 by 2 page; a page that declares width 0 beside a width tag; a
  page with no declared width and an empty width tag.
\<close>

definition page2x2 :: ifd where
  "page2x2 = \<lparr>width = Some 2, height = Some 2, t256 = None, t257 = None\<rparr>"

definition zero_width_page :: ifd where
  "zero_width_page = \<lparr>width = Some 0, height = Some 2, t256 = Some (Scalar 2), t257 = None\<rparr>"

definition tagless_page :: ifd where
  "tagless_page = \<lparr>width = None, height = Some 2, t256 = Some (Seq []), t257 = None\<rparr>"

text \<open>A viewer after a load of the given pages, its canvas showing a 3 by 1 bitmap.\<close>

definition loaded :: "ifd list \<Rightarrow> viewer" where
  "loaded pages = initialViewer\<lparr>loading := False, tiffData := Some [], tiffPages := pages,
                                totalPages := int (length pages), canvas := Some (blank 3 1)\<rparr>"

text \<open>
  Sample library answers: \<open>toRGBA8\<close> returning the 16 bytes of a 2 by 2 page, and
  returning 3 bytes only.
\<close>

definition full_env :: render_env where
  "full_env = \<lparr>decodeImage = (\<lambda>data pageIfd. Inr pageIfd),
               toRGBA8 = (\<lambda>pageIfd. Inr (Some (replicate 16 255))),
               getContext = True, putImage = None, timeElapsed = ''0.10''\<rparr>"

definition short_env :: render_env where
  "short_env = \<lparr>decodeImage = (\<lambda>data pageIfd. Inr pageIfd),
                toRGBA8 = (\<lambda>pageIfd. Inr (Some [255, 0, 0])),
                getContext = True, putImage = None, timeElapsed = ''0.10''\<rparr>"

text \<open>A viewer whose render of page 1 of 2 has failed on short pixel data.\<close>

definition failed_viewer :: viewer where
  "failed_viewer = renderCurrentPage ImageViewMag short_env [] (loaded [page2x2, page2x2])"

text \<open>A viewer with the magnifier on and the pointer over the canvas.\<close>

definition tracking_viewer :: viewer where
  "tracking_viewer = (loaded [page2x2])\<lparr>showMagnifier := True, zoomActive := True,
                                         loupeCanvas := Some \<lparr>drawn = None\<rparr>\<rparr>"

text \<open>
  Sample pointers: at (150, 250) over a canvas 300 wide and at (75, 300) over a
  canvas 150 wide, with nothing scrolled; and at (990, 300) over a canvas 1000 wide
  whose parent is scrolled by 600.
\<close>

definition wide_pointer :: pointer where
  "wide_pointer = \<lparr>clientX = 160, clientY = 260, bounding_left = 10, bounding_top = 10,
                    bounding_width = 300, container = Some (0, 0),
                    mainCtx = True, loupeCtx = True\<rparr>"

definition narrow_pointer :: pointer where
  "narrow_pointer = \<lparr>clientX = 75, clientY = 300, bounding_left = 0, bounding_top = 0,
                      bounding_width = 150, container = Some (0, 0),
                      mainCtx = True, loupeCtx = True\<rparr>"

definition scrolled_pointer :: pointer where
  "scrolled_pointer = \<lparr>clientX = 390, clientY = 300, bounding_left = - 600, bounding_top = 0,
                        bounding_width = 1000, container = Some (600, 0),
                        mainCtx = True, loupeCtx = True\<rparr>"

section \<open>Which cells an operation leaves alone\<close>

lemma draw_frame:
  "draw c env w h d s = (r, s') \<Longrightarrow>
     zoomLevel s' = zoomLevel s \<and> rectangleCoordinates s' = rectangleCoordinates s
     \<and> showMagnifier s' = showMagnifier s \<and> mousePos s' = mousePos s
     \<and> zoomActive s' = zoomActive s \<and> loupeCanvas s' = loupeCanvas s
     \<and> currentPage s' = currentPage s \<and> totalPages s' = totalPages s
     \<and> error s' = error s \<and> tiffData s' = tiffData s
     \<and> tiffPages s' = tiffPages s"
  unfolding draw_def Let_def
  by (cases "canvas s"; cases "putImage env"; cases "c = ImageViewRef")
     (auto split: if_splits)

lemma render_try_frame:
  "render_try c env data s = (r, s') \<Longrightarrow>
     zoomLevel s' = zoomLevel s \<and> rectangleCoordinates s' = rectangleCoordinates s
     \<and> showMagnifier s' = showMagnifier s \<and> mousePos s' = mousePos s
     \<and> zoomActive s' = zoomActive s \<and> loupeCanvas s' = loupeCanvas s
     \<and> currentPage s' = currentPage s \<and> totalPages s' = totalPages s
     \<and> error s' = error s \<and> tiffData s' = tiffData s
     \<and> length (tiffPages s') = length (tiffPages s)"
  unfolding render_try_def Let_def
  by (auto split: sum.splits if_splits dest!: draw_frame)


lemma renderCurrentPage_frame:
  "zoomLevel (renderCurrentPage c env data s) = zoomLevel s"
  "rectangleCoordinates (renderCurrentPage c env data s) = rectangleCoordinates s"
  "showMagnifier (renderCurrentPage c env data s) = showMagnifier s"
  "mousePos (renderCurrentPage c env data s) = mousePos s"
  "zoomActive (renderCurrentPage c env data s) = zoomActive s"
  "loupeCanvas (renderCurrentPage c env data s) = loupeCanvas s"
  "currentPage (renderCurrentPage c env data s) = currentPage s"
  "totalPages (renderCurrentPage c env data s) = totalPages s"
proof -
  obtain r s' where rs: "render_try c env data (s\<lparr>loading := True\<rparr>) = (r, s')"
    by (cases "render_try c env data (s\<lparr>loading := True\<rparr>)")
  note f = render_try_frame [OF rs]
  show "zoomLevel (renderCurrentPage c env data s) = zoomLevel s"
    using f by (cases r) (simp_all add: renderCurrentPage_def rs)
  show "rectangleCoordinates (renderCurrentPage c env data s) = rectangleCoordinates s"
    using f by (cases r) (simp_all add: renderCurrentPage_def rs)
  show "showMagnifier (renderCurrentPage c env data s) = showMagnifier s"
    using f by (cases r) (simp_all add: renderCurrentPage_def rs)
  show "mousePos (renderCurrentPage c env data s) = mousePos s"
    using f by (cases r) (simp_all add: renderCurrentPage_def rs)
  show "zoomActive (renderCurrentPage c env data s) = zoomActive s"
    using f by (cases r) (simp_all add: renderCurrentPage_def rs)
  show "loupeCanvas (renderCurrentPage c env data s) = loupeCanvas s"
    using f by (cases r) (simp_all add: renderCurrentPage_def rs)
  show "currentPage (renderCurrentPage c env data s) = currentPage s"
    using f by (cases r) (simp_all add: renderCurrentPage_def rs)
  show "totalPages (renderCurrentPage c env data s) = totalPages s"
    using f by (cases r) (simp_all add: renderCurrentPage_def rs)
qed

lemma renderEffect_frame:
  "zoomLevel (renderEffect c env s) = zoomLevel s"
  "rectangleCoordinates (renderEffect c env s) = rectangleCoordinates s"
  "showMagnifier (renderEffect c env s) = showMagnifier s"
  "mousePos (renderEffect c env s) = mousePos s"
  "zoomActive (renderEffect c env s) = zoomActive s"
  "loupeCanvas (renderEffect c env s) = loupeCanvas s"
  "currentPage (renderEffect c env s) = currentPage s"
  "totalPages (renderEffect c env s) = totalPages s"
  by (simp_all add: renderEffect_def renderCurrentPage_frame split: option.splits)

lemma loadTiff_try_frame:
  "loadTiff_try env s = Inr s' \<Longrightarrow>
     zoomLevel s' = zoomLevel s \<and> rectangleCoordinates s' = rectangleCoordinates s
     \<and> showMagnifier s' = showMagnifier s \<and> mousePos s' = mousePos s
     \<and> zoomActive s' = zoomActive s \<and> loupeCanvas s' = loupeCanvas s
     \<and> error s' = error s"
  unfolding loadTiff_try_def
  by (auto split: sum.splits prod.splits if_splits)

lemma loadTiff_frame:
  "zoomLevel (loadTiff env s) = zoomLevel s"
  "rectangleCoordinates (loadTiff env s) = rectangleCoordinates s"
  "showMagnifier (loadTiff env s) = showMagnifier s"
  "mousePos (loadTiff env s) = mousePos s"
  "zoomActive (loadTiff env s) = zoomActive s"
  "loupeCanvas (loadTiff env s) = loupeCanvas s"
proof -
  let ?r = "loadTiff_try env (s\<lparr>loading := True, error := None\<rparr>)"
  have f: "\<And>s'. ?r = Inr s' \<Longrightarrow>
     zoomLevel s' = zoomLevel s \<and> rectangleCoordinates s' = rectangleCoordinates s
     \<and> showMagnifier s' = showMagnifier s \<and> mousePos s' = mousePos s
     \<and> zoomActive s' = zoomActive s \<and> loupeCanvas s' = loupeCanvas s"
    by (drule loadTiff_try_frame) simp
  show "zoomLevel (loadTiff env s) = zoomLevel s"
    using f by (cases ?r) (simp_all add: loadTiff_def)
  show "rectangleCoordinates (loadTiff env s) = rectangleCoordinates s"
    using f by (cases ?r) (simp_all add: loadTiff_def)
  show "showMagnifier (loadTiff env s) = showMagnifier s"
    using f by (cases ?r) (simp_all add: loadTiff_def)
  show "mousePos (loadTiff env s) = mousePos s"
    using f by (cases ?r) (simp_all add: loadTiff_def)
  show "zoomActive (loadTiff env s) = zoomActive s"
    using f by (cases ?r) (simp_all add: loadTiff_def)
  show "loupeCanvas (loadTiff env s) = loupeCanvas s"
    using f by (cases ?r) (simp_all add: loadTiff_def)
qed

lemma commit_frame:
  "zoomLevel (commit s) = zoomLevel s"
  "rectangleCoordinates (commit s) = rectangleCoordinates s"
  "showMagnifier (commit s) = showMagnifier s"
  "mousePos (commit s) = mousePos s"
  "zoomActive (commit s) = zoomActive s"
  "error (commit s) = error s"
  "currentPage (commit s) = currentPage s"
  "totalPages (commit s) = totalPages s"
  by (simp_all add: commit_def split: option.splits)

lemma handleMouseMove_frame:
  "zoomLevel (handleMouseMove e s) = zoomLevel s"
  "rectangleCoordinates (handleMouseMove e s) = rectangleCoordinates s"
  "showMagnifier (handleMouseMove e s) = showMagnifier s"
  "zoomActive (handleMouseMove e s) = zoomActive s"
  "error (handleMouseMove e s) = error s"
  by (simp_all add: handleMouseMove_def updateMagnifier_def split: option.splits)

section \<open>Helper facts\<close>

lemma renderCurrentPage_error:
  "error (renderCurrentPage c env data s)
     = (case fst (render_try c env data (s\<lparr>loading := True\<rparr>)) of
          None \<Rightarrow> error s
        | Some e \<Rightarrow> Some (message_or e ''Error rendering page''))"
proof -
  obtain r s' where rs: "render_try c env data (s\<lparr>loading := True\<rparr>) = (r, s')"
    by (cases "render_try c env data (s\<lparr>loading := True\<rparr>)")
  from render_try_frame [OF rs] have "error s' = error s" by simp
  then show ?thesis
    by (cases r) (simp_all add: renderCurrentPage_def rs)
qed

lemma loadTiff_error:
  "error (loadTiff env s)
     = (case loadTiff_try env (s\<lparr>loading := True, error := None\<rparr>) of
          Inl e \<Rightarrow> Some (message_or e ''Error loading TIFF'')
        | Inr s' \<Rightarrow> None)"
proof (cases "loadTiff_try env (s\<lparr>loading := True, error := None\<rparr>)")
  case (Inl e)
  then show ?thesis by (simp add: loadTiff_def)
next
  case (Inr s')
  from loadTiff_try_frame [OF Inr] have "error s' = None" by simp
  with Inr show ?thesis by (simp add: loadTiff_def)
qed

lemma invalid_dimensions_iff:
  "invalid_dimensions w h \<longleftrightarrow> w = None \<or> h = None \<or> the w \<le> 0 \<or> the h \<le> 0"
  by (auto simp: invalid_dimensions_def falsy_def)

lemma message_or_InvalidDimensions:
  "message_or (InvalidDimensions w h) d = message (InvalidDimensions w h)"
  by (simp add: message_or_def)

lemma render_try_InvalidDimensions:
  assumes "decodeImage env data (tiffPages s ! nat (currentPage s)) = Inr p"
    and "invalid_dimensions (resolve_width p) (resolve_height p)"
  shows "render_try c env data s
         = (Some (InvalidDimensions (resolve_width p) (resolve_height p)),
            s\<lparr>tiffPages := (tiffPages s)[nat (currentPage s) := p]\<rparr>)"
  using assms by (simp add: render_try_def Let_def)

lemmas sample_render_defs =
  renderCurrentPage_def render_try_def draw_def Let_def loaded_def initialViewer_def
  short_env_def full_env_def page2x2_def resolve_width_def resolve_height_def
  invalid_dimensions_def falsy_def blank_def message_or_def

lemma failed_viewer_error: "error failed_viewer = Some ''Invalid RGBA data generated''"
  by (simp add: failed_viewer_def sample_render_defs)

text \<open>The sample viewer with the loupe showing is reached from a loaded viewer.\<close>

lemma tracking_viewer_reached:
  "run ImageViewMag [ToggleZoom, MouseEnter] (loaded [page2x2]) = tracking_viewer"
  by (simp add: run_def step_def toggleZoom_def handleMouseEnter_def commit_def
        loupeVisible_def tracking_viewer_def loaded_def initialViewer_def Let_def)

section \<open>Short pixel data\<close>

text \<open>
  Claim C1, in the form the code satisfies.  When \<open>toRGBA8\<close> returns no data or fewer
  than width * height * 4 bytes for a page with valid dimensions, and the canvas and
  its 2D context exist, the render ends with the error message of \<open>InvalidPixelData\<close>
  and the loading flag cleared, and nothing is put on the canvas; but the canvas has
  been resized to width by height before the length is tested, which clears it.  The
  overlay dimensions of \<open>ImageViewRef\<close> stay as they were.
\<close>

theorem short_pixel_data:
  assumes "decodeImage env data (tiffPages s ! nat (currentPage s)) = Inr p"
    and "resolve_width p = Some w" and "resolve_height p = Some h" and "0 < w" and "0 < h"
    and "toRGBA8 env p = Inr rgbaData"
    and "rgbaData = None \<or> int (length (the rgbaData)) < w * h * 4"
    and "canvas s = Some cv" and "getContext env"
  shows "error (renderCurrentPage c env data s) = Some (message InvalidPixelData)
       \<and> canvas (renderCurrentPage c env data s) = Some (blank w h)
       \<and> canvasDimensions (renderCurrentPage c env data s) = canvasDimensions s
       \<and> loading (renderCurrentPage c env data s) = False"
  using assms
  by (auto simp: renderCurrentPage_def render_try_def draw_def Let_def invalid_dimensions_def
        falsy_def message_or_def)

theorem short_pixel_data_witness:
  "decodeImage short_env [] (tiffPages (loaded [page2x2]) ! nat (currentPage (loaded [page2x2])))
     = Inr page2x2
   \<and> resolve_width page2x2 = Some 2 \<and> resolve_height page2x2 = Some 2
   \<and> toRGBA8 short_env page2x2 = Inr (Some [255, 0, 0])
   \<and> int (length (the (Some [255, 0, 0 :: 8 word]))) < 2 * 2 * 4
   \<and> canvas (loaded [page2x2]) = Some (blank 3 1) \<and> getContext short_env
   \<and> error (renderCurrentPage ImageViewRef short_env [] (loaded [page2x2]))
       = Some ''Invalid RGBA data generated''
   \<and> canvas (renderCurrentPage ImageViewRef short_env [] (loaded [page2x2])) = Some (blank 2 2)"
proof -
  have d: "decodeImage short_env [] (tiffPages (loaded [page2x2]) ! nat (currentPage (loaded [page2x2])))
     = Inr page2x2"
    by (simp add: short_env_def loaded_def initialViewer_def)
  have w: "resolve_width page2x2 = Some 2" and h: "resolve_height page2x2 = Some 2"
    by (simp_all add: resolve_width_def resolve_height_def page2x2_def falsy_def)
  have r: "toRGBA8 short_env page2x2 = Inr (Some [255, 0, 0])"
    by (simp add: short_env_def)
  have l: "Some [255, 0, 0 :: 8 word] = None \<or> int (length (the (Some [255, 0, 0 :: 8 word]))) < 2 * 2 * 4"
    by simp
  have cv: "canvas (loaded [page2x2]) = Some (blank 3 1)"
    by (simp add: loaded_def)
  have g: "getContext short_env"
    by (simp add: short_env_def)
  show ?thesis
    using short_pixel_data [OF d w h _ _ r l cv g, of ImageViewRef] d w h r cv g
    by simp
qed

text \<open>
  The claim as the specification words it fails: on a canvas showing a 3 by 1 bitmap,
  a 2 by 2 page for which \<open>toRGBA8\<close> returns 3 bytes ends in that error, and the
  canvas is not what it was.
\<close>

theorem short_pixel_data_counterexample:
  "\<not> (error (renderCurrentPage ImageViewMag short_env [] (loaded [page2x2]))
         = Some (message InvalidPixelData)
       \<and> canvas (renderCurrentPage ImageViewMag short_env [] (loaded [page2x2]))
         = canvas (loaded [page2x2]))"
  by (simp add: sample_render_defs)

lemma resized_before_length_check:
  "canvas (loaded [page2x2]) = Some \<lparr>cwidth = 3, cheight = 1, pixels = replicate 12 0\<rparr>
   \<and> canvas (renderCurrentPage ImageViewMag short_env [] (loaded [page2x2]))
       = Some \<lparr>cwidth = 2, cheight = 2, pixels = replicate 16 0\<rparr>"
  by (simp add: sample_render_defs)

section \<open>The magnifier's source region\<close>

text \<open>
  Claim C2, in the form the code satisfies.  On a canvas at least 50 wide and 50 high,
  for every pointer position the 50 by 50 source rectangle that \<open>updateMagnifier\<close>
  hands to \<open>drawImage\<close> lies inside the canvas bitmap.  On a narrower or lower canvas
  the rectangle starts at 0 on that axis.
\<close>

theorem source_region_within:
  "(50 \<le> cwidth cv \<and> 50 \<le> cheight cv \<longrightarrow> region_within (sourceRegion x y cv) cv)
   \<and> sourceRegion x y cv = (sourceX x cv, sourceY y cv, 50, 50)
   \<and> (cwidth cv < 50 \<longrightarrow> sourceX x cv = 0)
   \<and> (cheight cv < 50 \<longrightarrow> sourceY y cv = 0)"
proof -
  have "region_within (sourceRegion x y cv) cv"
    if "50 \<le> cwidth cv" and "50 \<le> cheight cv"
  proof -
    have "0 \<le> real_of_int (cwidth cv) - 50" and "0 \<le> real_of_int (cheight cv) - 50"
      using that by simp_all
    then show ?thesis
      by (simp add: region_within_def sourceRegion_def sourceX_def sourceY_def sourceDim_def
            max_def min_def)
  qed
  then show ?thesis
    by (simp add: sourceRegion_def sourceX_def sourceY_def sourceDim_def)
qed

theorem source_region_within_witness:
  "50 \<le> cwidth (blank 300 300) \<and> 50 \<le> cheight (blank 300 300)
   \<and> region_within (sourceRegion 3 299 (blank 300 300)) (blank 300 300)
   \<and> sourceRegion 3 299 (blank 300 300) = (0, 250, 50, 50)
   \<and> cwidth (blank 40 40) < 50 \<and> sourceX 10 (blank 40 40) = 0"
proof -
  have a: "50 \<le> cwidth (blank 300 300)" and b: "50 \<le> cheight (blank 300 300)"
    and n: "cwidth (blank 40 40) < 50"
    by (simp_all add: blank_def)
  have c: "sourceRegion 3 299 (blank 300 300) = (0, 250, 50, 50)"
    by (simp add: blank_def sourceRegion_def sourceX_def sourceY_def sourceDim_def)
  show ?thesis
    using a b c n source_region_within [of "blank 300 300" 3 299]
      source_region_within [of "blank 40 40" 10 10]
    by blast
qed

text \<open>
  The claim as the specification words it fails on a 40 by 40 canvas: with the
  pointer at (10, 10) the rectangle reaches from 0 to 50.
\<close>

theorem source_region_counterexample:
  "\<not> region_within (sourceRegion 10 10 (blank 40 40)) (blank 40 40)"
  by (simp add: region_within_def sourceRegion_def sourceX_def sourceY_def sourceDim_def
        blank_def)

section \<open>Zoom\<close>

lemma handle_zoom_in_range:
  "zoom_in_range s \<Longrightarrow> zoom_in_range (handle c ev s)"
  by (cases ev)
     (simp_all add: zoom_in_range_def loadTiff_frame renderEffect_frame handleMouseMove_frame
        goToNextPage_def goToPrevPage_def zoomIn_def zoomOut_def resetZoom_def toggleZoom_def
        handleMouseEnter_def handleMouseLeave_def Let_def)

lemma step_zoom_in_range:
  "zoom_in_range s \<Longrightarrow> zoom_in_range (step c s ev)"
  using handle_zoom_in_range [of s c ev]
  by (simp add: step_def zoom_in_range_def commit_frame)

lemma run_zoom_in_range:
  "zoom_in_range s \<Longrightarrow> zoom_in_range (run c evs s)"
  unfolding run_def
  by (induction evs arbitrary: s) (simp_all add: step_zoom_in_range)

lemma handle_zoom_quarter:
  assumes "zoom_quarter s"
  shows "zoom_quarter (handle c ev s)"
proof -
  from assms obtain k :: int where k: "zoomLevel s = real_of_int k / 4"
    by (auto simp: zoom_quarter_def)
  show ?thesis
  proof (cases ev)
    case ZoomIn
    have "zoomLevel (zoomIn s) = real_of_int (min (k + 1) 20) / 4"
      by (simp add: zoomIn_def k min_def)
    with ZoomIn show ?thesis
      unfolding zoom_quarter_def by auto
  next
    case ZoomOut
    have "zoomLevel (zoomOut s) = real_of_int (max (k - 1) 1) / 4"
      by (simp add: zoomOut_def k max_def)
    with ZoomOut show ?thesis
      unfolding zoom_quarter_def by auto
  next
    case ResetZoom
    have "zoomLevel (resetZoom s) = real_of_int 4 / 4"
      by (simp add: resetZoom_def)
    with ResetZoom show ?thesis
      unfolding zoom_quarter_def by (metis handle.simps(7))
  qed (use assms in \<open>simp_all add: zoom_quarter_def loadTiff_frame renderEffect_frame
        handleMouseMove_frame goToNextPage_def goToPrevPage_def toggleZoom_def
        handleMouseEnter_def handleMouseLeave_def Let_def\<close>)
qed

lemma run_zoom_quarter:
  "zoom_quarter s \<Longrightarrow> zoom_quarter (run c evs s)"
  unfolding run_def
proof (induction evs arbitrary: s)
  case Nil
  then show ?case by simp
next
  case (Cons ev evs)
  from handle_zoom_quarter [OF Cons.prems, of c ev]
  have "zoom_quarter (step c s ev)"
    by (simp add: step_def zoom_quarter_def commit_frame)
  then show ?case using Cons.IH by simp
qed

lemma zoom_level_quarters:
  "\<exists>k::int. zoomLevel (run c evs initialViewer) = real_of_int k / 4"
proof -
  have "zoomLevel initialViewer = real_of_int 4 / 4"
    by (simp add: initialViewer_def)
  then have "zoom_quarter initialViewer"
    unfolding zoom_quarter_def by blast
  from run_zoom_quarter [OF this] show ?thesis
    by (simp add: zoom_quarter_def)
qed

text \<open>
  Claim C3.  From the initial zoom level 1, after any finite sequence of events (the
  zoom buttons among them) the zoom level lies in the closed range from 0.25 to 5.
  \<open>zoomIn\<close> adds 0.25 unless that would pass 5, and then gives 5; \<open>zoomOut\<close>
  subtracts 0.25 unless that would fall below 0.25, and then gives 0.25; \<open>resetZoom\<close>
  gives 1.
\<close>

theorem zoom_level_bounded:
  "0.25 \<le> zoomLevel (run c evs initialViewer)
   \<and> zoomLevel (run c evs initialViewer) \<le> 5
   \<and> zoomLevel (zoomIn s) = (if zoomLevel s + 0.25 \<le> 5 then zoomLevel s + 0.25 else 5)
   \<and> zoomLevel (zoomOut s) = (if 0.25 \<le> zoomLevel s - 0.25 then zoomLevel s - 0.25 else 0.25)
   \<and> zoomLevel (resetZoom s) = 1"
proof -
  have "zoom_in_range initialViewer"
    by (simp add: zoom_in_range_def initialViewer_def)
  then have "zoom_in_range (run c evs initialViewer)"
    by (rule run_zoom_in_range)
  then show ?thesis
    by (simp add: zoom_in_range_def zoomIn_def zoomOut_def resetZoom_def min_def max_def)
qed

section \<open>Navigation\<close>

text \<open>
  Claim C4.  In a state whose current page is a valid index, \<open>goToNextPage\<close> adds one
  to the current page below the last index and changes nothing at the last index;
  \<open>goToPrevPage\<close> subtracts one above index 0 and changes nothing at index 0; after
  either the current page is a valid index again.
\<close>

theorem navigation_steps:
  assumes "0 \<le> currentPage s" and "currentPage s < totalPages s"
  shows "(currentPage s < totalPages s - 1 \<longrightarrow>
            goToNextPage s = s\<lparr>currentPage := currentPage s + 1\<rparr>)
       \<and> (currentPage s = totalPages s - 1 \<longrightarrow> goToNextPage s = s)
       \<and> (currentPage s > 0 \<longrightarrow> goToPrevPage s = s\<lparr>currentPage := currentPage s - 1\<rparr>)
       \<and> (currentPage s = 0 \<longrightarrow> goToPrevPage s = s)
       \<and> 0 \<le> currentPage (goToNextPage s)
       \<and> currentPage (goToNextPage s) < totalPages (goToNextPage s)
       \<and> 0 \<le> currentPage (goToPrevPage s)
       \<and> currentPage (goToPrevPage s) < totalPages (goToPrevPage s)"
  using assms by (simp add: goToNextPage_def goToPrevPage_def)

theorem navigation_steps_witness:
  "0 \<le> currentPage (initialViewer\<lparr>totalPages := 2\<rparr>)
   \<and> currentPage (initialViewer\<lparr>totalPages := 2\<rparr>) < totalPages (initialViewer\<lparr>totalPages := 2\<rparr>)
   \<and> currentPage (goToNextPage (initialViewer\<lparr>totalPages := 2\<rparr>)) = 1
   \<and> goToPrevPage (initialViewer\<lparr>totalPages := 2\<rparr>) = initialViewer\<lparr>totalPages := 2\<rparr>
   \<and> 0 \<le> currentPage (initialViewer\<lparr>currentPage := 1, totalPages := 2\<rparr>)
   \<and> currentPage (initialViewer\<lparr>currentPage := 1, totalPages := 2\<rparr>)
       < totalPages (initialViewer\<lparr>currentPage := 1, totalPages := 2\<rparr>)
   \<and> goToNextPage (initialViewer\<lparr>currentPage := 1, totalPages := 2\<rparr>)
       = initialViewer\<lparr>currentPage := 1, totalPages := 2\<rparr>
   \<and> currentPage (goToPrevPage (initialViewer\<lparr>currentPage := 1, totalPages := 2\<rparr>)) = 0"
  using navigation_steps [of "initialViewer\<lparr>totalPages := 2\<rparr>"]
    navigation_steps [of "initialViewer\<lparr>currentPage := 1, totalPages := 2\<rparr>"]
  by (simp add: initialViewer_def)

section \<open>Resolving the page dimensions\<close>

text \<open>
  Claim C5, in the form the code satisfies.  After \<open>decodeImage\<close>, the render takes the
  descriptor's declared width (height) when it is present and not 0.  When it is
  absent or 0, the render falls back to tag \<open>t256\<close> (\<open>t257\<close>): 0 for an absent tag,
  the value itself for a scalar, the first element for a sequence and \<open>undefined\<close>
  for an empty sequence.  When the resolved width or height is missing or not
  positive, the \<open>try\<close> block is left with \<open>InvalidDimensions\<close>, the error message is
  set from it, the canvas is untouched, and the outcome does not depend on what
  \<open>toRGBA8\<close>, \<open>getContext\<close> and the drawing would have answered.
\<close>

theorem dimensions_resolved:
  assumes "decodeImage env data (tiffPages s ! nat (currentPage s)) = Inr p"
  shows "(\<forall>w. width p = Some w \<and> w \<noteq> 0 \<longrightarrow> resolve_width p = Some w)
       \<and> (\<forall>h. height p = Some h \<and> h \<noteq> 0 \<longrightarrow> resolve_height p = Some h)
       \<and> (width p = None \<or> width p = Some 0 \<longrightarrow>
            resolve_width p = (case t256 p of None \<Rightarrow> Some 0 | Some (Scalar n) \<Rightarrow> Some n
                               | Some (Seq []) \<Rightarrow> None | Some (Seq (v # vs)) \<Rightarrow> Some v))
       \<and> (height p = None \<or> height p = Some 0 \<longrightarrow>
            resolve_height p = (case t257 p of None \<Rightarrow> Some 0 | Some (Scalar n) \<Rightarrow> Some n
                                | Some (Seq []) \<Rightarrow> None | Some (Seq (v # vs)) \<Rightarrow> Some v))
       \<and> (resolve_width p = None \<or> resolve_height p = None
            \<or> the (resolve_width p) \<le> 0 \<or> the (resolve_height p) \<le> 0 \<longrightarrow>
              fst (render_try c env data s)
                = Some (InvalidDimensions (resolve_width p) (resolve_height p))
            \<and> error (renderCurrentPage c env data s)
                = Some (message (InvalidDimensions (resolve_width p) (resolve_height p)))
            \<and> canvas (renderCurrentPage c env data s) = canvas s
            \<and> (\<forall>f g m. renderCurrentPage c (env\<lparr>toRGBA8 := f, getContext := g, putImage := m\<rparr>) data s
                        = renderCurrentPage c env data s))"
proof -
  have w1: "\<forall>w. width p = Some w \<and> w \<noteq> 0 \<longrightarrow> resolve_width p = Some w"
    by (simp add: resolve_width_def falsy_def)
  have h1: "\<forall>h. height p = Some h \<and> h \<noteq> 0 \<longrightarrow> resolve_height p = Some h"
    by (simp add: resolve_height_def falsy_def)
  have w2: "width p = None \<or> width p = Some 0 \<longrightarrow>
            resolve_width p = (case t256 p of None \<Rightarrow> Some 0 | Some (Scalar n) \<Rightarrow> Some n
                               | Some (Seq []) \<Rightarrow> None | Some (Seq (v # vs)) \<Rightarrow> Some v)"
    by (auto simp: resolve_width_def falsy_def split: option.splits tagval.splits list.splits)
  have h2: "height p = None \<or> height p = Some 0 \<longrightarrow>
            resolve_height p = (case t257 p of None \<Rightarrow> Some 0 | Some (Scalar n) \<Rightarrow> Some n
                                | Some (Seq []) \<Rightarrow> None | Some (Seq (v # vs)) \<Rightarrow> Some v)"
    by (auto simp: resolve_height_def falsy_def split: option.splits tagval.splits list.splits)
  have bad: "fst (render_try c env data s)
                = Some (InvalidDimensions (resolve_width p) (resolve_height p))
            \<and> error (renderCurrentPage c env data s)
                = Some (message (InvalidDimensions (resolve_width p) (resolve_height p)))
            \<and> canvas (renderCurrentPage c env data s) = canvas s
            \<and> (\<forall>f g m. renderCurrentPage c (env\<lparr>toRGBA8 := f, getContext := g, putImage := m\<rparr>) data s
                        = renderCurrentPage c env data s)"
    if inv: "invalid_dimensions (resolve_width p) (resolve_height p)"
  proof -
    have d: "decodeImage env data
               (tiffPages (s\<lparr>loading := True\<rparr>) ! nat (currentPage (s\<lparr>loading := True\<rparr>))) = Inr p"
      using assms by simp
    have d': "decodeImage (env\<lparr>toRGBA8 := f, getContext := g, putImage := m\<rparr>) data
                (tiffPages (s\<lparr>loading := True\<rparr>) ! nat (currentPage (s\<lparr>loading := True\<rparr>))) = Inr p"
      for f g m using assms by simp
    show ?thesis
      by (simp add: render_try_InvalidDimensions [OF assms inv]
            render_try_InvalidDimensions [OF d inv] render_try_InvalidDimensions [OF d' inv]
            renderCurrentPage_def message_or_InvalidDimensions del: message.simps)
  qed
  show ?thesis
    using w1 h1 w2 h2 bad unfolding invalid_dimensions_iff by blast
qed

theorem dimensions_resolved_witness:
  "decodeImage full_env [] (tiffPages (loaded [tagless_page]) ! nat (currentPage (loaded [tagless_page])))
     = Inr tagless_page
   \<and> width tagless_page = None
   \<and> resolve_width tagless_page = None
   \<and> resolve_height tagless_page = Some 2
   \<and> error (renderCurrentPage ImageView full_env [] (loaded [tagless_page]))
       = Some ''Invalid image dimensions: undefinedx2''
   \<and> canvas (renderCurrentPage ImageView full_env [] (loaded [tagless_page]))
       = canvas (loaded [tagless_page])"
proof -
  have d: "decodeImage full_env [] (tiffPages (loaded [tagless_page]) ! nat (currentPage (loaded [tagless_page])))
     = Inr tagless_page"
    by (simp add: full_env_def loaded_def initialViewer_def)
  have w: "width tagless_page = None" and h: "height tagless_page = Some 2"
    and t: "t256 tagless_page = Some (Seq [])"
    by (simp_all add: tagless_page_def)
  have m: "message (InvalidDimensions None (Some 2)) = ''Invalid image dimensions: undefinedx2''"
    by (simp add: show_number_def show_int_def show_nat.simps digit_char_def)
  show ?thesis
    using dimensions_resolved [OF d, of ImageView] d w h t m by simp
qed

text \<open>
  The claim as the specification words it fails on a page that declares width 0
  beside the width tag 2: the declared width is present and is not the one taken.
  The render of that page then succeeds at 2 by 2.
\<close>

theorem declared_zero_width_counterexample:
  "\<not> (width zero_width_page \<noteq> None
        \<longrightarrow> resolve_width zero_width_page = width zero_width_page)"
  by (simp add: zero_width_page_def resolve_width_def falsy_def)

lemma zero_width_page_renders:
  "width zero_width_page = Some 0
   \<and> fst (render_try ImageView full_env [] (loaded [zero_width_page])) = None
   \<and> error (renderCurrentPage ImageView full_env [] (loaded [zero_width_page])) = None
   \<and> canvas (renderCurrentPage ImageView full_env [] (loaded [zero_width_page]))
       = Some \<lparr>cwidth = 2, cheight = 2, pixels = replicate 16 255\<rparr>"
  by (simp add: zero_width_page_def sample_render_defs)

section \<open>Switching the magnifier off\<close>

lemma step_magnifier_off:
  "magnifier_off s \<Longrightarrow> ev \<noteq> ToggleZoom \<Longrightarrow>
     magnifier_off (step c s ev) \<and> mousePos (step c s ev) = mousePos s"
  by (cases ev)
     (simp_all add: magnifier_off_def step_def commit_def loupeVisible_def
        loadTiff_frame renderEffect_frame handleMouseMove_def
        goToNextPage_def goToPrevPage_def zoomIn_def zoomOut_def resetZoom_def
        handleMouseEnter_def handleMouseLeave_def)

lemma run_magnifier_off:
  "magnifier_off s \<Longrightarrow> ToggleZoom \<notin> set evs \<Longrightarrow>
     magnifier_off (run c evs s) \<and> mousePos (run c evs s) = mousePos s"
  unfolding run_def
proof (induction evs arbitrary: s)
  case Nil
  then show ?case by simp
next
  case (Cons ev evs)
  then have "magnifier_off (step c s ev)" and "mousePos (step c s ev) = mousePos s"
    using step_magnifier_off [of s ev c] by auto
  with Cons show ?case by simp
qed

text \<open>
  Claim C6.  When the magnifier is on and the loupe is showing, \<open>toggleZoom\<close> sets
  \<open>showMagnifier\<close> to false in the same step, and the loupe is no longer rendered.
  After that, through any sequence of events without another toggle (pointer enter,
  move and leave among them) the loupe stays hidden, its canvas stays unmounted so
  nothing is drawn into it, and the loupe position is not written.
\<close>

theorem toggle_off_hides_loupe:
  assumes "zoomActive s" and "showMagnifier s" and "ToggleZoom \<notin> set evs"
  shows "\<not> showMagnifier (toggleZoom s)
       \<and> \<not> loupeVisible (step c s ToggleZoom)
       \<and> \<not> loupeVisible (run c evs (step c s ToggleZoom))
       \<and> \<not> showMagnifier (run c evs (step c s ToggleZoom))
       \<and> loupeCanvas (run c evs (step c s ToggleZoom)) = None
       \<and> mousePos (run c evs (step c s ToggleZoom)) = mousePos s"
proof -
  have off: "magnifier_off (step c s ToggleZoom)"
    and pos: "mousePos (step c s ToggleZoom) = mousePos s"
    using assms(1)
    by (simp_all add: magnifier_off_def step_def toggleZoom_def commit_def loupeVisible_def Let_def)
  from run_magnifier_off [OF off assms(3)] pos off assms(1)
  show ?thesis
    by (simp add: magnifier_off_def loupeVisible_def toggleZoom_def Let_def)
qed

theorem toggle_off_hides_loupe_witness:
  "zoomActive tracking_viewer \<and> showMagnifier tracking_viewer
   \<and> ToggleZoom \<notin> set [MouseEnter, MouseMove wide_pointer]
   \<and> \<not> showMagnifier (toggleZoom tracking_viewer)
   \<and> \<not> loupeVisible
         (run ImageViewMag [MouseEnter, MouseMove wide_pointer]
            (step ImageViewMag tracking_viewer ToggleZoom))
   \<and> mousePos
         (run ImageViewMag [MouseEnter, MouseMove wide_pointer]
            (step ImageViewMag tracking_viewer ToggleZoom)) = (0, 0)"
proof -
  have a: "zoomActive tracking_viewer" and b: "showMagnifier tracking_viewer"
    and p: "mousePos tracking_viewer = (0, 0)"
    by (simp_all add: tracking_viewer_def loaded_def initialViewer_def)
  have n: "ToggleZoom \<notin> set [MouseEnter, MouseMove wide_pointer]"
    by simp
  show ?thesis
    using toggle_off_hides_loupe [OF a b n, of ImageViewMag] a b n p by simp
qed

section \<open>Placing the loupe\<close>

text \<open>
  Claim C7, in the form the code satisfies.  While the magnifier is on and both
  canvases are mounted, a pointer move at (x, y) over the canvas stores the loupe
  position.  Horizontally the 200 wide loupe is centred on the pointer whenever the
  centred loupe lies inside the viewport, for every viewport that starts at the
  scroll offset and is no wider than the canvas on screen.  Vertically the loupe is
  220 above the pointer (20 between the 200 high loupe and the pointer) when that is
  not above the scrolled top edge, and otherwise 20 below the pointer.  When the
  canvas is at least 200 wide on screen the loupe never starts left of the scroll
  offset.  Nothing is stated about the right-hand edge.
\<close>

theorem loupe_placement:
  assumes "canvas s \<noteq> None" and "loupeCanvas s \<noteq> None" and "zoomActive s"
    and "x = clientX e - bounding_left e" and "y = clientY e - bounding_top e"
  shows "mousePos (handleMouseMove e s) = magnifierPos e
       \<and> (\<forall>vw. vw \<le> bounding_width e \<and> scrollLeft e \<le> x - 100
                 \<and> x + 100 \<le> scrollLeft e + vw
              \<longrightarrow> fst (magnifierPos e) = x - 100)
       \<and> (scrollTop e \<le> y - 220 \<longrightarrow> snd (magnifierPos e) = y - 220)
       \<and> (y - 220 < scrollTop e \<longrightarrow> snd (magnifierPos e) = y + 20)
       \<and> (200 \<le> bounding_width e \<longrightarrow> scrollLeft e \<le> fst (magnifierPos e))"
proof -
  have pos: "mousePos (handleMouseMove e s) = magnifierPos e"
    using assms(1-3)
    by (auto simp: handleMouseMove_def updateMagnifier_def split: option.splits)
  have centred: "fst (magnifierPos e) = x - 100"
    if "vw \<le> bounding_width e" and "scrollLeft e \<le> x - 100"
      and "x + 100 \<le> scrollLeft e + vw" for vw
    using that assms(4)
    by (simp add: magnifierPos_def magnifierWidth_def magnifierHeight_def Let_def)
  have above: "snd (magnifierPos e) = y - 220" if "scrollTop e \<le> y - 220"
    using that assms(5)
    by (simp add: magnifierPos_def magnifierWidth_def magnifierHeight_def Let_def)
  have below: "snd (magnifierPos e) = y + 20" if "y - 220 < scrollTop e"
    using that assms(5)
    by (simp add: magnifierPos_def magnifierWidth_def magnifierHeight_def Let_def)
  have left: "scrollLeft e \<le> fst (magnifierPos e)" if "200 \<le> bounding_width e"
    using that
    by (simp add: magnifierPos_def magnifierWidth_def magnifierHeight_def Let_def)
  show ?thesis
    using pos centred above below left by blast
qed

theorem loupe_placement_witness:
  "canvas tracking_viewer \<noteq> None \<and> loupeCanvas tracking_viewer \<noteq> None
   \<and> zoomActive tracking_viewer
   \<and> mousePos (handleMouseMove wide_pointer tracking_viewer) = (50, 30)
   \<and> snd (magnifierPos (wide_pointer\<lparr>clientY := 110\<rparr>)) = 120
   \<and> 200 \<le> bounding_width wide_pointer
   \<and> scrollLeft wide_pointer \<le> fst (magnifierPos wide_pointer)"
proof -
  have a: "canvas tracking_viewer \<noteq> None" and b: "loupeCanvas tracking_viewer \<noteq> None"
    and c: "zoomActive tracking_viewer"
    by (simp_all add: tracking_viewer_def loaded_def initialViewer_def)
  have w: "clientX wide_pointer - bounding_left wide_pointer = 150"
      "clientY wide_pointer - bounding_top wide_pointer = 250"
      "scrollLeft wide_pointer = 0" "scrollTop wide_pointer = 0"
      "bounding_width wide_pointer = 300"
    by (simp_all add: wide_pointer_def scrollLeft_def scrollTop_def)
  have t: "clientY (wide_pointer\<lparr>clientY := 110\<rparr>) - bounding_top (wide_pointer\<lparr>clientY := 110\<rparr>) = 100"
      "scrollTop (wide_pointer\<lparr>clientY := 110\<rparr>) = 0"
    by (simp_all add: wide_pointer_def scrollTop_def)
  have fits: "(300::real) \<le> bounding_width wide_pointer \<and> scrollLeft wide_pointer \<le> 150 - 100
              \<and> (150::real) + 100 \<le> scrollLeft wide_pointer + 300"
    using w by simp
  have "fst (magnifierPos wide_pointer) = 50" and "snd (magnifierPos wide_pointer) = 30"
    and "mousePos (handleMouseMove wide_pointer tracking_viewer) = magnifierPos wide_pointer"
    and "scrollLeft wide_pointer \<le> fst (magnifierPos wide_pointer)"
    using loupe_placement [OF a b c refl refl, of wide_pointer] w fits
    by auto
  moreover have "snd (magnifierPos (wide_pointer\<lparr>clientY := 110\<rparr>)) = 120"
    using loupe_placement [OF a b c refl refl, of "wide_pointer\<lparr>clientY := 110\<rparr>"] t
    by simp
  ultimately show ?thesis
    using a b c w by (simp add: prod_eq_iff)
qed

text \<open>
  The claim as the specification words it fails over a canvas 150 wide: with the
  pointer at (75, 300) the loupe starts left of the scroll offset, outside any
  viewport.
\<close>

theorem loupe_placement_counterexample:
  "\<not> scrollLeft narrow_pointer \<le> fst (magnifierPos narrow_pointer)"
  by (simp add: magnifierPos_def narrow_pointer_def scrollLeft_def scrollTop_def
        magnifierWidth_def magnifierHeight_def Let_def)

text \<open>
  The right-hand test of \<open>handleMouseMove\<close> compares with the width of the canvas
  plus the scroll offset.  Over a canvas 1000 wide scrolled by 600, with the pointer
  at 990, the loupe is stored at 890 and so ends at 1090, beyond the right end of the
  canvas.
\<close>

lemma right_edge_test_sample:
  "scrollLeft scrolled_pointer = 600
   \<and> clientX scrolled_pointer - bounding_left scrolled_pointer = 990
   \<and> bounding_width scrolled_pointer = 1000
   \<and> fst (magnifierPos scrolled_pointer) = 890"
  by (simp add: magnifierPos_def scrolled_pointer_def scrollLeft_def scrollTop_def
        magnifierWidth_def magnifierHeight_def Let_def)

section \<open>The finally block of a render\<close>

text \<open>
  Claim C8.  Whatever the library and the host answer, \<open>renderCurrentPage\<close> ends
  with the loading flag cleared and with the render time text made of the page
  number (current page plus one), the number of pages and the elapsed time.
\<close>

theorem render_always_finishes:
  "loading (renderCurrentPage c env data s) = False
   \<and> renderTime (renderCurrentPage c env data s)
       = Some (''Page '' @ show_int (currentPage s + 1) @ ''/''
               @ show_nat (length (tiffPages s))
               @ '' | Render time: '' @ timeElapsed env @ ''ms'')"
proof -
  obtain r s' where rs: "render_try c env data (s\<lparr>loading := True\<rparr>) = (r, s')"
    by (cases "render_try c env data (s\<lparr>loading := True\<rparr>)")
  show ?thesis
  proof (cases r)
    case None
    with rs show ?thesis
      by (simp add: renderCurrentPage_def render_label_def)
  next
    case (Some e)
    with rs show ?thesis
      by (simp add: renderCurrentPage_def render_label_def)
  qed
qed

lemma render_label_sample:
  "renderTime failed_viewer = Some ''Page 1/2 | Render time: 0.10ms''
   \<and> loading failed_viewer = False"
  by (simp add: failed_viewer_def sample_render_defs render_label_def show_int_def
        show_nat.simps digit_char_def)

section \<open>The error message stays\<close>

lemma handle_error_kept:
  "error s \<noteq> None \<Longrightarrow> \<not> is_load ev \<Longrightarrow> error (handle c ev s) \<noteq> None"
  by (cases ev)
     (simp_all add: renderEffect_def renderCurrentPage_error handleMouseMove_frame
        goToNextPage_def goToPrevPage_def zoomIn_def zoomOut_def resetZoom_def toggleZoom_def
        handleMouseEnter_def handleMouseLeave_def Let_def split: option.splits)

lemma run_error_kept:
  "error s \<noteq> None \<Longrightarrow> \<forall>ev \<in> set evs. \<not> is_load ev \<Longrightarrow> error (run c evs s) \<noteq> None"
  unfolding run_def
proof (induction evs arbitrary: s)
  case Nil
  then show ?case by simp
next
  case (Cons ev evs)
  then have "error (step c s ev) \<noteq> None"
    using handle_error_kept [of s ev c] by (simp add: step_def commit_frame)
  with Cons show ?case by simp
qed

text \<open>
  Claim C9.  Once an error message is set, it is still set after any sequence of
  events that contains no load; a render that leaves its \<open>try\<close> block without an
  exception keeps the message as it was; and a load that succeeds ends with no
  message, since \<open>loadTiff\<close> clears it on entry.
\<close>

theorem error_cleared_only_by_load:
  assumes "error s \<noteq> None" and "\<forall>ev \<in> set evs. \<not> is_load ev"
  shows "error (run c evs s) \<noteq> None
       \<and> (\<forall>env data. fst (render_try c env data (s\<lparr>loading := True\<rparr>)) = None
             \<longrightarrow> error (renderCurrentPage c env data s) = error s)
       \<and> (\<forall>env s'. loadTiff_try env (s\<lparr>loading := True, error := None\<rparr>) = Inr s'
             \<longrightarrow> error (loadTiff env s) = None)"
  using run_error_kept [OF assms]
  by (simp add: renderCurrentPage_error loadTiff_error)

theorem error_cleared_only_by_load_witness:
  "error failed_viewer \<noteq> None
   \<and> \<not> is_load NextPage \<and> \<not> is_load (Render full_env)
   \<and> fst (render_try ImageViewMag full_env [] (failed_viewer\<lparr>loading := True\<rparr>)) = None
   \<and> error (renderCurrentPage ImageViewMag full_env [] failed_viewer)
       = Some ''Invalid RGBA data generated''
   \<and> error (run ImageViewMag [NextPage, Render full_env] failed_viewer) \<noteq> None"
proof -
  have a: "error failed_viewer \<noteq> None"
    by (simp add: failed_viewer_error)
  have b: "\<forall>ev \<in> set [NextPage, Render full_env]. \<not> is_load ev"
    by simp
  have c: "fst (render_try ImageViewMag full_env [] (failed_viewer\<lparr>loading := True\<rparr>)) = None"
    by (simp add: failed_viewer_def sample_render_defs)
  show ?thesis
    using error_cleared_only_by_load [OF a b, of ImageViewMag] a c failed_viewer_error
    by simp
qed

section \<open>The rectangles\<close>

lemma handle_rectangles:
  "rectangleCoordinates (handle c ev s) = rectangleCoordinates s"
  by (cases ev)
     (simp_all add: loadTiff_frame renderEffect_frame handleMouseMove_frame
        goToNextPage_def goToPrevPage_def zoomIn_def zoomOut_def resetZoom_def toggleZoom_def
        handleMouseEnter_def handleMouseLeave_def Let_def)

lemma run_rectangles:
  "rectangleCoordinates (run c evs s) = rectangleCoordinates s"
  unfolding run_def
  by (induction evs arbitrary: s) (simp_all add: step_def commit_frame handle_rectangles)

text \<open>
  Claim C10.  After any sequence of events the rectangle list is the configured one:
  ids 1 to 4 with the corner pairs (50,50)-(150,150), (200,50)-(300,150),
  (50,200)-(150,300) and (200,200)-(300,300).  No two different rectangles of it
  share a point, borders included, and each has positive width and height.
\<close>

theorem rectangles_fixed_and_disjoint:
  "rectangleCoordinates (run c evs initialViewer) = initialRectangles
   \<and> map (\<lambda>r. (rect_id r, topLeft r, bottomRight r)) initialRectangles
       = [(1, (50, 50), (150, 150)), (2, (200, 50), (300, 150)),
          (3, (50, 200), (150, 300)), (4, (200, 200), (300, 300))]
   \<and> (\<forall>a \<in> set initialRectangles. \<forall>b \<in> set initialRectangles. a \<noteq> b \<longrightarrow> \<not> overlap a b)
   \<and> (\<forall>r \<in> set initialRectangles. 0 < svg_width r \<and> 0 < svg_height r)"
proof -
  have "rectangleCoordinates (run c evs initialViewer) = initialRectangles"
    by (simp add: run_rectangles initialViewer_def)
  moreover have "map (\<lambda>r. (rect_id r, topLeft r, bottomRight r)) initialRectangles
       = [(1, (50, 50), (150, 150)), (2, (200, 50), (300, 150)),
          (3, (50, 200), (150, 300)), (4, (200, 200), (300, 300))]"
    by (simp add: initialRectangles_def)
  moreover have "\<forall>a \<in> set initialRectangles. \<forall>b \<in> set initialRectangles.
                   a \<noteq> b \<longrightarrow> \<not> overlap a b"
    by (simp add: initialRectangles_def overlap_def)
  moreover have "\<forall>r \<in> set initialRectangles. 0 < svg_width r \<and> 0 < svg_height r"
    by (simp add: initialRectangles_def svg_width_def svg_height_def)
  ultimately show ?thesis by blast
qed

theorem rectangles_fixed_and_disjoint_witness:
  "initialRectangles ! 0 \<in> set initialRectangles \<and> initialRectangles ! 3 \<in> set initialRectangles
   \<and> initialRectangles ! 0 \<noteq> initialRectangles ! 3
   \<and> \<not> overlap (initialRectangles ! 0) (initialRectangles ! 3)
   \<and> 0 < svg_width (initialRectangles ! 3)
   \<and> rectangleCoordinates (run ImageViewRef [ZoomIn, NextPage] initialViewer) = initialRectangles"
proof -
  have a: "initialRectangles ! 0 \<in> set initialRectangles"
    and b: "initialRectangles ! 3 \<in> set initialRectangles"
    and ab: "initialRectangles ! 0 \<noteq> initialRectangles ! 3"
    by (simp_all add: initialRectangles_def)
  show ?thesis
    using a b ab rectangles_fixed_and_disjoint [of ImageViewRef "[ZoomIn, NextPage]"]
    by blast
qed

end
